theory Spec2Isabelle
  imports Complex_Main "HOL-Library.Multiset" "HOL-Library.Sublist"
begin

section \<open>Data model of the application store (src/store/index.ts)\<close>

text \<open>
  The store is a zustand store: one mutable state object, read with \<open>get()\<close> and
  replaced field-wise with \<open>set(...)\<close>. It is modelled by explicit state passing: every
  action takes the state and returns the new one.

  JavaScript numbers that hold counters are modelled as \<open>int\<close>. A mastery score is a
  JavaScript double: it is modelled as \<open>Num r\<close> with an exact real \<open>r\<close> (\<open>0.1\<close> is one
  tenth), or as \<open>NaN\<close>. Display texts of the mock catalog, which are Chinese in the
  source, are rendered in English; no property below depends on their content.
\<close>

datatype num = Num real | NaN

record question =
  id_q :: string
  content :: string
  options :: "string list"
  correctAnswer :: string
  explanation :: string
  difficulty :: int
  subject :: string
  category :: string
  knowledgePoints :: "string list"
  year :: int
  usage_count :: int
  correct_rate :: real

text \<open>The object literal \<open>newAnswerRecord\<close> built by \<open>submitAnswer\<close>.\<close>

record answer_record =
  questionId :: string
  userAnswer :: string
  isCorrect :: bool
  responseTime :: int
  answeredAt :: string
  question :: question

record user_profile =
  id_u :: string
  nickname :: string
  avatar :: string
  level :: string
  targetExam :: string
  masteryMatrix :: "string \<rightharpoonup> num"
  totalQuestions :: int
  correctAnswers :: int
  streak_u :: int
  longestStreak :: int
  studyDays :: int

record last_answer =
  isCorrect_l :: bool
  explanation_l :: string

record app_state =
  currentQuestion :: "question option"
  questionQueue :: "question list"
  currentIndex :: int
  isLoading :: bool
  userProfile :: user_profile
  answerHistory :: "answer_record list"
  streak :: int
  sessionQuestions :: int
  sessionCorrect :: int
  showResult :: bool
  lastAnswer :: "last_answer option"

text \<open>The initial state of \<open>useAppStore\<close>.\<close>

definition initial_profile :: user_profile where
  "initial_profile =
     \<lparr> id_u = ''mock-user-001'', nickname = ''ruankao-xueba'',
       avatar = ''https://img.icons8.com/fluency/96/user-male-circle.png'',
       level = ''junior programmer'', targetExam = ''programmer exam'',
       masteryMatrix = Map.empty, totalQuestions = 0, correctAnswers = 0,
       streak_u = 0, longestStreak = 0, studyDays = 1 \<rparr>"

definition initial_state :: app_state where
  "initial_state =
     \<lparr> currentQuestion = None, questionQueue = [], currentIndex = 0, isLoading = False,
       userProfile = initial_profile, answerHistory = [], streak = 0,
       sessionQuestions = 0, sessionCorrect = 0, showResult = False, lastAnswer = None \<rparr>"

section \<open>Actions of the store\<close>

definition setCurrentQuestion :: "question option \<Rightarrow> app_state \<Rightarrow> app_state" where
  "setCurrentQuestion q s = s\<lparr>currentQuestion := q\<rparr>"

subsection \<open>Reading and writing the mastery matrix\<close>

text \<open>
  \<open>masteryMatrix\<close> is a plain JavaScript object used as a dictionary. The map of the
  model holds its own properties. A read \<open>obj[key]\<close> of a key that is no own property
  goes on to \<open>Object.prototype\<close>: for the names below it yields an inherited member (a
  function, or the prototype object itself for \<open>__proto__\<close>), for every other key
  \<open>undefined\<close>.
\<close>

datatype js_value = Undefined | Number num | Inherited | Str

definition object_prototype_names :: "string list" where
  "object_prototype_names =
     [''constructor'', ''hasOwnProperty'', ''isPrototypeOf'', ''propertyIsEnumerable'',
      ''toLocaleString'', ''toString'', ''valueOf'', ''__defineGetter__'', ''__defineSetter__'',
      ''__lookupGetter__'', ''__lookupSetter__'', ''__proto__'']"

definition get_property :: "(string \<rightharpoonup> num) \<Rightarrow> string \<Rightarrow> js_value" where
  "get_property obj key =
     (case obj key of
        Some v \<Rightarrow> Number v
      | None \<Rightarrow> if key \<in> set object_prototype_names then Inherited else Undefined)"

text \<open>
  An assignment \<open>obj[key] = v\<close> of a number creates or overwrites the own property; for
  the key \<open>__proto__\<close> with no own property it reaches the inherited setter, which ignores a
  value that is not an object.
\<close>

definition set_property :: "(string \<rightharpoonup> num) \<Rightarrow> string \<Rightarrow> num \<Rightarrow> (string \<rightharpoonup> num)" where
  "set_property obj key v =
     (if key = ''__proto__'' \<and> obj key = None then obj else obj(key \<mapsto> v))"

text \<open>
  Truthiness: \<open>undefined\<close>, \<open>0\<close> and \<open>NaN\<close> are falsy; functions, objects and the (non-empty)
  strings that arise here are truthy. \<open>a || b\<close> is \<open>a\<close> when \<open>a\<close> is truthy, else \<open>b\<close>.
\<close>

definition truthy :: "js_value \<Rightarrow> bool" where
  "truthy a =
     (case a of
        Undefined \<Rightarrow> False
      | Number n \<Rightarrow> (case n of Num r \<Rightarrow> r \<noteq> 0 | NaN \<Rightarrow> False)
      | Inherited \<Rightarrow> True
      | Str \<Rightarrow> True)"

definition js_or :: "js_value \<Rightarrow> js_value \<Rightarrow> js_value" where
  "js_or a b = (if truthy a then a else b)"

text \<open>
  \<open>a + n\<close> for a number \<open>n\<close>: numbers add; a function or an object is first turned into its
  source text, so the sum is a string; \<open>undefined + n\<close> is \<open>NaN\<close>.
\<close>

definition js_plus :: "js_value \<Rightarrow> num \<Rightarrow> js_value" where
  "js_plus a n =
     (case a of
        Undefined \<Rightarrow> Number NaN
      | Number m \<Rightarrow>
          (case (m, n) of (Num x, Num y) \<Rightarrow> Number (Num (x + y)) | _ \<Rightarrow> Number NaN)
      | Inherited \<Rightarrow> Str
      | Str \<Rightarrow> Str)"

text \<open>
  \<open>Math.min\<close> and \<open>Math.max\<close> turn their arguments into numbers; the strings that arise
  here (the text of a function or object followed by digits) are not numerals and become
  \<open>NaN\<close>; the result is \<open>NaN\<close> as soon as one argument is.
\<close>

definition to_number :: "js_value \<Rightarrow> num" where
  "to_number a = (case a of Number n \<Rightarrow> n | _ \<Rightarrow> NaN)"

definition Math_min :: "num \<Rightarrow> num \<Rightarrow> num" where
  "Math_min a b = (case (a, b) of (Num x, Num y) \<Rightarrow> Num (min x y) | _ \<Rightarrow> NaN)"

definition Math_max :: "num \<Rightarrow> num \<Rightarrow> num" where
  "Math_max a b = (case (a, b) of (Num x, Num y) \<Rightarrow> Num (max x y) | _ \<Rightarrow> NaN)"

text \<open>\<open>const currentMastery = newMasteryMatrix[point] || 0.5\<close>.\<close>

definition currentMastery :: "(string \<rightharpoonup> num) \<Rightarrow> string \<Rightarrow> js_value" where
  "currentMastery m point = js_or (get_property m point) (Number (Num 0.5))"

definition adjustment :: "bool \<Rightarrow> real" where
  "adjustment isC = (if isC then 0.1 else - 0.05)"

text \<open>
  One round of the \<open>forEach\<close> callback over \<open>currentQuestion.knowledgePoints\<close>:
  \<open>newMasteryMatrix[point] = Math.max(0, Math.min(1, currentMastery + adjustment))\<close>.
\<close>

definition updatePoint :: "bool \<Rightarrow> (string \<rightharpoonup> num) \<Rightarrow> string \<Rightarrow> (string \<rightharpoonup> num)" where
  "updatePoint isC m point =
     set_property m point
       (Math_max (Num 0)
          (Math_min (Num 1) (to_number (js_plus (currentMastery m point) (Num (adjustment isC))))))"

definition updateMastery :: "bool \<Rightarrow> string list \<Rightarrow> (string \<rightharpoonup> num) \<Rightarrow> (string \<rightharpoonup> num)" where
  "updateMastery isC points m = foldl (updatePoint isC) m points"

text \<open>
  \<open>submitAnswer(answer, responseTime)\<close>. The third argument is the value of
  \<open>new Date().toISOString()\<close> at the call. With no current question the action returns
  at once and the state is left as it is.
\<close>

definition submitAnswer :: "string \<Rightarrow> int \<Rightarrow> string \<Rightarrow> app_state \<Rightarrow> app_state" where
  "submitAnswer answer rt now s =
     (case currentQuestion s of
        None \<Rightarrow> s
      | Some q \<Rightarrow>
          let isC = (answer = correctAnswer q);
              newAnswerRecord =
                \<lparr> questionId = id_q q, userAnswer = answer, isCorrect = isC,
                  responseTime = rt, answeredAt = now, question = q \<rparr>;
              newAnswerHistory = answerHistory s @ [newAnswerRecord];
              newStreak = (if isC then streak s + 1 else 0);
              newTotalQuestions = totalQuestions (userProfile s) + 1;
              newCorrectAnswers = correctAnswers (userProfile s) + (if isC then 1 else 0);
              newLongestStreak = max (longestStreak (userProfile s)) newStreak;
              newMasteryMatrix = updateMastery isC (knowledgePoints q) (masteryMatrix (userProfile s))
          in s\<lparr> answerHistory := newAnswerHistory,
                streak := newStreak,
                sessionQuestions := sessionQuestions s + 1,
                sessionCorrect := sessionCorrect s + (if isC then 1 else 0),
                showResult := True,
                lastAnswer := Some \<lparr> isCorrect_l = isC, explanation_l = explanation q \<rparr>,
                userProfile := (userProfile s)
                  \<lparr> totalQuestions := newTotalQuestions,
                    correctAnswers := newCorrectAnswers,
                    streak_u := newStreak,
                    longestStreak := newLongestStreak,
                    masteryMatrix := newMasteryMatrix \<rparr> \<rparr>)"

text \<open>\<open>resetSession()\<close> starts a new session.\<close>

definition resetSession :: "app_state \<Rightarrow> app_state" where
  "resetSession s =
     s\<lparr> sessionQuestions := 0, sessionCorrect := 0, showResult := False,
        lastAnswer := None, currentIndex := 0 \<rparr>"

text \<open>
  An answer event as the store receives it: the question on screen (put there by
  \<open>setCurrentQuestion\<close>), the chosen option, the response time and the time of the call.
  Recording it is \<open>setCurrentQuestion\<close> followed by \<open>submitAnswer\<close>.
\<close>

record answer_event =
  ev_question :: question
  ev_answer :: string
  ev_responseTime :: int
  ev_time :: string

definition recordEvent :: "app_state \<Rightarrow> answer_event \<Rightarrow> app_state" where
  "recordEvent s e =
     submitAnswer (ev_answer e) (ev_responseTime e) (ev_time e)
       (setCurrentQuestion (Some (ev_question e)) s)"

definition recordEvents :: "answer_event list \<Rightarrow> app_state \<Rightarrow> app_state" where
  "recordEvents es s = foldl recordEvent s es"

subsection \<open>The wrong-question book\<close>

text \<open>\<open>Array.prototype.findIndex\<close>: the first index whose element satisfies the test, else \<open>-1\<close>.\<close>

fun findIndex :: "('a \<Rightarrow> bool) \<Rightarrow> 'a list \<Rightarrow> int" where
  "findIndex P [] = - 1"
| "findIndex P (x # xs) =
     (if P x then 0 else (let i = findIndex P xs in if i < 0 then - 1 else i + 1))"

text \<open>\<open>Array.prototype.filter\<close> with the three-argument callback \<open>(element, index, self)\<close>.\<close>

definition filter_indexed :: "('a \<Rightarrow> nat \<Rightarrow> 'a list \<Rightarrow> bool) \<Rightarrow> 'a list \<Rightarrow> 'a list" where
  "filter_indexed f xs = map snd (filter (\<lambda>(index, x). f x index xs) (enumerate 0 xs))"

text \<open>
  \<open>getWrongQuestions()\<close>. The truthiness tests of the source (\<open>record &&\<close>,
  \<open>record.question\<close>, \<open>question &&\<close>, \<open>q &&\<close>, the array test on \<open>answerHistory\<close>)
  always succeed on values of the types above, so nothing is thrown and the \<open>catch\<close>
  branch is never taken.
\<close>

definition getWrongQuestions :: "app_state \<Rightarrow> question list" where
  "getWrongQuestions s =
     filter_indexed
       (\<lambda>question index self. int index = findIndex (\<lambda>q. id_q q = id_q question) self)
       (map question (filter (\<lambda>record. \<not> isCorrect record) (answerHistory s)))"

definition clearWrongAnswers :: "app_state \<Rightarrow> app_state" where
  "clearWrongAnswers s = s\<lparr>answerHistory := filter (\<lambda>record. isCorrect record) (answerHistory s)\<rparr>"

definition markQuestionAsMastered :: "string \<Rightarrow> app_state \<Rightarrow> app_state" where
  "markQuestionAsMastered qid s =
     s\<lparr>answerHistory :=
         filter (\<lambda>record. \<not> (questionId record = qid \<and> \<not> isCorrect record)) (answerHistory s)\<rparr>"

text \<open>All scores of a mastery matrix, and of a state, lie in the closed unit interval.\<close>

definition in_unit :: "(string \<rightharpoonup> num) \<Rightarrow> bool" where
  "in_unit m = (\<forall>point v. m point = Some v \<longrightarrow> (\<exists>r. v = Num r \<and> 0 \<le> r \<and> r \<le> 1))"

definition scores_in_range :: "app_state \<Rightarrow> bool" where
  "scores_in_range s = in_unit (masteryMatrix (userProfile s))"

section \<open>The mock data service (services/mockData)\<close>

definition MOCK_QUESTIONS :: "question list" where
  "MOCK_QUESTIONS =
     [ \<lparr> id_q = ''q_001'',
         content = ''In a UML class diagram, which relationship expresses has-a?'',
         options = [''A. Inheritance'', ''B. Realization'', ''C. Composition'', ''D. Dependency''],
         correctAnswer = ''C'',
         explanation = ''Composition is the whole-part relationship.'',
         difficulty = 3, subject = ''software engineering'', category = ''UML modelling'',
         knowledgePoints = [''UML class diagram'', ''relationship types'', ''object-oriented design''],
         year = 2023, usage_count = 1250, correct_rate = 0.68 \<rparr>,
       \<lparr> id_q = ''q_002'',
         content = ''Which is not an integrity constraint of a relational database?'',
         options = [''A. Primary Key'', ''B. Foreign Key'', ''C. Check'', ''D. Index''],
         correctAnswer = ''D'',
         explanation = ''An index speeds queries up; it does not guard integrity.'',
         difficulty = 2, subject = ''database systems'', category = ''database design'',
         knowledgePoints = [''data integrity'', ''constraint types'', ''relational database''],
         year = 2023, usage_count = 980, correct_rate = 0.75 \<rparr>,
       \<lparr> id_q = ''q_003'',
         content = ''Which mechanism makes TCP transmission reliable?'',
         options = [''A. Sliding window and acknowledgement'', ''B. Routing and congestion control'',
                    ''C. Encryption and authentication'', ''D. Load balancing and failover''],
         correctAnswer = ''A'',
         explanation = ''Sliding window, acknowledgement, retransmission and sequence numbers.'',
         difficulty = 3, subject = ''computer networks'', category = ''transport layer protocols'',
         knowledgePoints = [''TCP protocol'', ''reliable transmission'', ''sliding window''],
         year = 2024, usage_count = 1580, correct_rate = 0.62 \<rparr>,
       \<lparr> id_q = ''q_004'',
         content = ''Which sorting algorithm is O(n log n) and stable?'',
         options = [''A. Quick sort'', ''B. Heap sort'', ''C. Merge sort'', ''D. Selection sort''],
         correctAnswer = ''C'',
         explanation = ''Merge sort is always O(n log n) and stable.'',
         difficulty = 3, subject = ''data structures and algorithms'', category = ''sorting algorithms'',
         knowledgePoints = [''sorting algorithms'', ''time complexity'', ''algorithm stability''],
         year = 2024, usage_count = 1420, correct_rate = 0.71 \<rparr>,
       \<lparr> id_q = ''q_005'',
         content = ''What does polymorphism in object-oriented programming rely on?'',
         options = [''A. Inheritance and overloading'', ''B. Inheritance and overriding'',
                    ''C. Encapsulation and inheritance'', ''D. Abstraction and interfaces''],
         correctAnswer = ''B'',
         explanation = ''Polymorphism comes from inheritance and method overriding.'',
         difficulty = 2, subject = ''object-oriented programming'', category = ''polymorphism'',
         knowledgePoints = [''polymorphism'', ''inheritance'', ''method overriding''],
         year = 2024, usage_count = 890, correct_rate = 0.78 \<rparr> ]"

record recommendation =
  question_id :: string
  question_r :: question
  score :: real
  reason :: "string option"
  confidence :: real
  recommendation_type :: "string option"

text \<open>
  What the service can read when \<open>getRecommendedQuestions\<close> runs: the application store
  (with the user's mastery scores) and its two sources of randomness. The call
  \<open>[...MOCK_QUESTIONS].sort(() => 0.5 - Math.random())\<close> sorts a copy of the catalog with
  a comparator that answers at random; which order comes out is left to the JavaScript
  engine, so the outcome of that call is the field \<open>shuffle\<close>. The later calls of
  \<open>Math.random()\<close> are the stream \<open>random\<close>, numbered in the order of the calls. The
  artificial delay (\<open>await this.delay(500)\<close>) has no effect on the result.
\<close>

record service_env =
  store :: app_state
  shuffle :: "question list \<Rightarrow> question list"
  random :: "nat \<Rightarrow> real"

text \<open>\<open>Array.prototype.slice(0, end)\<close> for an integer \<open>end\<close>: a negative \<open>end\<close> counts from the end of the array.\<close>

definition slice0 :: "'a list \<Rightarrow> int \<Rightarrow> 'a list" where
  "slice0 xs end_index =
     (let len = int (length xs);
          final = (if end_index < 0 then max (len + end_index) 0 else min end_index len)
      in take (nat final) xs)"

text \<open>\<open>arr[Math.floor(r * arr.length)]\<close>; an index outside the array reads \<open>undefined\<close>.\<close>

definition pick :: "'a list \<Rightarrow> real \<Rightarrow> 'a option" where
  "pick arr r =
     (let i = \<lfloor>r * real (length arr)\<rfloor>
      in if 0 \<le> i \<and> i < int (length arr) then Some (arr ! nat i) else None)"

definition generateRandomReason :: "real \<Rightarrow> string option" where
  "generateRandomReason r =
     pick [''From your learning history, this question consolidates a knowledge point'',
           ''Users of a similar level often get this kind of question wrong'',
           ''This question covers an important exam point'',
           ''By the knowledge graph, this question relates to your weak points'',
           ''Frequent in past exams, practise it''] r"

definition getRandomRecommendationType :: "real \<Rightarrow> string option" where
  "getRandomRecommendationType r =
     pick [''collaborative'', ''content_based'', ''knowledge_graph'', ''user_preference''] r"

text \<open>
  \<open>getRecommendedQuestions(count = 5)\<close>: an omitted argument is \<open>None\<close>. The callback of
  \<open>map\<close> draws four random numbers for each question, in the order of the fields.
\<close>

definition getRecommendedQuestions :: "service_env \<Rightarrow> int option \<Rightarrow> recommendation list" where
  "getRecommendedQuestions env count_arg =
     (let cnt = (case count_arg of None \<Rightarrow> 5 | Some c \<Rightarrow> c);
          shuffled = shuffle env MOCK_QUESTIONS
      in map (\<lambda>(i, question).
                \<lparr> question_id = id_q question,
                  question_r = question,
                  score = 0.7 + random env (4 * i) * 0.3,
                  reason = generateRandomReason (random env (4 * i + 1)),
                  confidence = 0.6 + random env (4 * i + 2) * 0.4,
                  recommendation_type = getRandomRecommendationType (random env (4 * i + 3)) \<rparr>)
             (enumerate 0 (slice0 shuffled cnt)))"

section \<open>The mastery model and the session counters as the specification words them\<close>

text \<open>
  The definitions of this section follow the words of the specification, not the code;
  they are here to be compared with what the code does. A mastery score is a real number
  in [0, 1]; \<open>get\<close> returns 0.5 for an unseen knowledge point.
\<close>

definition spec_get :: "(string \<rightharpoonup> real) \<Rightarrow> string \<Rightarrow> real" where
  "spec_get m point = (case m point of None \<Rightarrow> 0.5 | Some v \<Rightarrow> v)"

text \<open>
  The update rule \<open>newScore = clamp(oldScore + (isCorrect ? +0.10 : -0.05), 0.0, 1.0)\<close>,
  applied for every knowledge point tagged on the question.
\<close>

definition spec_updatePoint :: "bool \<Rightarrow> (string \<rightharpoonup> real) \<Rightarrow> string \<Rightarrow> (string \<rightharpoonup> real)" where
  "spec_updatePoint isC m point =
     m(point \<mapsto> max 0 (min 1 (spec_get m point + (if isC then 0.10 else - 0.05))))"

definition spec_update :: "bool \<Rightarrow> string list \<Rightarrow> (string \<rightharpoonup> real) \<Rightarrow> (string \<rightharpoonup> real)" where
  "spec_update isC points m = foldl (spec_updatePoint isC) m points"

text \<open>
  The mastery model together with the session counters \<open>{answered, correct, streak,
  longestStreak}\<close>: the streak goes back to 0 on an incorrect event and \<open>longestStreak\<close> is
  a high-water mark.
\<close>

record spec_caches =
  scores :: "string \<rightharpoonup> real"
  answered :: int
  correct :: int
  run_streak :: int
  longest :: int

definition spec_fresh :: spec_caches where
  "spec_fresh = \<lparr> scores = Map.empty, answered = 0, correct = 0, run_streak = 0, longest = 0 \<rparr>"

definition spec_apply :: "spec_caches \<Rightarrow> answer_record \<Rightarrow> spec_caches" where
  "spec_apply c r =
     (let newStreak = (if isCorrect r then run_streak c + 1 else 0)
      in \<lparr> scores = spec_update (isCorrect r) (knowledgePoints (question r)) (scores c),
           answered = answered c + 1,
           correct = correct c + (if isCorrect r then 1 else 0),
           run_streak = newStreak,
           longest = max (longest c) newStreak \<rparr>)"

text \<open>Replaying a sequence of recorded events, in order, into a fresh model and fresh counters.\<close>

definition spec_replay :: "answer_record list \<Rightarrow> spec_caches" where
  "spec_replay rs = foldl spec_apply spec_fresh rs"

text \<open>
  The weight the specification describes for the selection engine: base weight 1.0 times
  (1.5 minus the average mastery of the tagged knowledge points), floored at 0.1. Nothing
  in the source computes it.
\<close>

definition spec_weight :: "(string \<rightharpoonup> real) \<Rightarrow> question \<Rightarrow> real" where
  "spec_weight m q =
     max 0.1 (1.0 * (1.5 - sum_list (map (spec_get m) (knowledgePoints q))
                            / real (length (knowledgePoints q))))"

text \<open>The numeric scores a mastery matrix of the store holds.\<close>

definition scores_of :: "(string \<rightharpoonup> num) \<Rightarrow> (string \<rightharpoonup> real)" where
  "scores_of m point = (case m point of Some (Num r) \<Rightarrow> Some r | _ \<Rightarrow> None)"

section \<open>Derived notions and sample data\<close>

text \<open>The correctness flag \<open>submitAnswer\<close> derives for an event: \<open>answer === correctAnswer\<close>.\<close>

definition event_correct :: "answer_event \<Rightarrow> bool" where
  "event_correct e = (ev_answer e = correctAnswer (ev_question e))"

text \<open>The values the streak takes while a list of events is recorded, the starting value first.\<close>

definition streaks :: "answer_event list \<Rightarrow> app_state \<Rightarrow> int list" where
  "streaks es s = map (\<lambda>n. streak (recordEvents (take n es) s)) [0..<Suc (length es)]"

text \<open>The values the streak takes after each event of a list, in order.\<close>

definition streaks_after :: "answer_event list \<Rightarrow> app_state \<Rightarrow> int list" where
  "streaks_after es s = map (\<lambda>n. streak (recordEvents (take (Suc n) es) s)) [0..<length es]"

text \<open>
  The catalog of the specification's scenario: \<open>Q1\<close> and \<open>Q2\<close> are tagged \<open>K1\<close>, \<open>Q3\<close> is
  tagged \<open>K2\<close>; option \<open>A\<close> is the correct one of each.
\<close>

definition sample_question :: "string \<Rightarrow> string list \<Rightarrow> question" where
  "sample_question qid points =
     \<lparr> id_q = qid, content = ''sample'', options = [''A. yes'', ''B. no''],
       correctAnswer = ''A'', explanation = ''sample'', difficulty = 1,
       subject = ''sample'', category = ''sample'', knowledgePoints = points,
       year = 2024, usage_count = 0, correct_rate = 0 \<rparr>"

definition Q1 :: question where "Q1 = sample_question ''Q1'' [''K1'']"
definition Q2 :: question where "Q2 = sample_question ''Q2'' [''K1'']"
definition Q3 :: question where "Q3 = sample_question ''Q3'' [''K2'']"

definition answers :: "question \<Rightarrow> string \<Rightarrow> string \<Rightarrow> answer_event" where
  "answers q a t = \<lparr> ev_question = q, ev_answer = a, ev_responseTime = 1500, ev_time = t \<rparr>"

text \<open>A store showing \<open>Q1\<close> in which the mastery scores are the given ones.\<close>

definition state_with :: "(string \<rightharpoonup> num) \<Rightarrow> app_state" where
  "state_with m =
     initial_state\<lparr> currentQuestion := Some Q1,
                    userProfile := initial_profile\<lparr>masteryMatrix := m\<rparr> \<rparr>"

text \<open>
  Two users for the mock service: the first is weak on the knowledge points of \<open>q_001\<close>
  and strong on those of \<open>q_005\<close>, the second the other way round. Both meet the same
  random draws: the shuffle reverses the catalog and every later draw is one half.
\<close>

definition mastery_of :: "real \<Rightarrow> real \<Rightarrow> (string \<rightharpoonup> real)" where
  "mastery_of a b =
     map_of [(''UML class diagram'', a), (''relationship types'', a), (''object-oriented design'', a),
             (''polymorphism'', b), (''inheritance'', b), (''method overriding'', b)]"

definition env_of :: "(string \<rightharpoonup> real) \<Rightarrow> service_env" where
  "env_of m =
     \<lparr> store = state_with (map_option Num \<circ> m), shuffle = rev, random = (\<lambda>n. 1 / 2) \<rparr>"

section \<open>Basic facts about the actions\<close>

lemmas sample_defs = Q1_def Q2_def Q3_def sample_question_def answers_def state_with_def
  initial_state_def initial_profile_def

lemmas js_defs = get_property_def set_property_def truthy_def js_or_def js_plus_def
  to_number_def Math_min_def Math_max_def object_prototype_names_def

lemmas action_defs = recordEvents_def recordEvent_def setCurrentQuestion_def submitAnswer_def
  updateMastery_def updatePoint_def currentMastery_def adjustment_def js_defs Let_def


lemma currentQuestion_submitAnswer:
  "currentQuestion (submitAnswer a rt now s) = currentQuestion s"
  by (cases "currentQuestion s") (simp_all add: submitAnswer_def Let_def)


lemma masteryMatrix_submitAnswer:
  "masteryMatrix (userProfile (submitAnswer a rt now s)) =
     (case currentQuestion s of
        None \<Rightarrow> masteryMatrix (userProfile s)
      | Some q \<Rightarrow>
          updateMastery (a = correctAnswer q) (knowledgePoints q) (masteryMatrix (userProfile s)))"
  by (simp add: submitAnswer_def Let_def split: option.splits)

lemma masteryMatrix_recordEvent:
  "masteryMatrix (userProfile (recordEvent s e)) =
     updateMastery (event_correct e) (knowledgePoints (ev_question e)) (masteryMatrix (userProfile s))"
  by (simp add: recordEvent_def masteryMatrix_submitAnswer setCurrentQuestion_def event_correct_def)

lemma recordEvents_Nil: "recordEvents [] s = s"
  by (simp add: recordEvents_def)

lemma recordEvents_Cons: "recordEvents (e # es) s = recordEvents es (recordEvent s e)"
  by (simp add: recordEvents_def)

lemma recordEvents_snoc: "recordEvents (es @ [e]) s = recordEvent (recordEvents es s) e"
  by (simp add: recordEvents_def)

section \<open>The mastery model\<close>

lemma updatePoint_other: "p \<noteq> point \<Longrightarrow> updatePoint isC m point p = m p"
  by (simp add: updatePoint_def set_property_def)

lemma updateMastery_other: "p \<notin> set points \<Longrightarrow> updateMastery isC points m p = m p"
  unfolding updateMastery_def
  by (induction points arbitrary: m) (auto simp: updatePoint_other)

text \<open>
  What one update stores for a knowledge point, by the value the matrix holds for it: a
  numeric score other than 0 moves by the adjustment and is clamped; a score of 0, a
  \<open>NaN\<close> and an unseen point start again from 0.5; an unseen point whose name is inherited
  from \<open>Object.prototype\<close> gets \<open>NaN\<close>.
\<close>

lemma updatePoint_number:
  "m point = Some (Num r) \<Longrightarrow> r \<noteq> 0 \<Longrightarrow>
     updatePoint isC m point point = Some (Num (max 0 (min 1 (r + adjustment isC))))"
  by (simp add: updatePoint_def currentMastery_def js_defs)

lemma updatePoint_falsy:
  "m point = Some (Num 0) \<or> m point = Some NaN \<Longrightarrow>
     updatePoint isC m point point = Some (Num (max 0 (min 1 (0.5 + adjustment isC))))"
  by (auto simp: updatePoint_def currentMastery_def js_defs)

lemma updatePoint_unseen:
  "m point = None \<Longrightarrow> point \<notin> set object_prototype_names \<Longrightarrow>
     updatePoint isC m point point = Some (Num (max 0 (min 1 (0.5 + adjustment isC))))"
  by (simp add: updatePoint_def currentMastery_def get_property_def set_property_def truthy_def
      js_or_def js_plus_def to_number_def Math_min_def Math_max_def)
    (auto simp: object_prototype_names_def)

lemma updatePoint_inherited:
  "m point = None \<Longrightarrow> point \<in> set object_prototype_names \<Longrightarrow> point \<noteq> ''__proto__'' \<Longrightarrow>
     updatePoint isC m point point = Some NaN"
  by (simp add: updatePoint_def currentMastery_def get_property_def set_property_def truthy_def
      js_or_def js_plus_def to_number_def Math_min_def Math_max_def)

text \<open>
  Where the code follows the rule of the specification: a score that is present, numeric
  and not zero, and a point that is unseen and has no inherited name.
\<close>

lemma updatePoint_nonzero:
  assumes "point \<notin> set object_prototype_names" "m point \<noteq> Some (Num 0)" "m point \<noteq> Some NaN"
  shows "updatePoint isC m point point =
       Some (Num (max 0 (min 1 (spec_get (scores_of m) point + (if isC then 0.1 else - 0.05)))))"
proof (cases "m point")
  case None
  with assms(1) show ?thesis
    by (simp add: updatePoint_unseen spec_get_def scores_of_def adjustment_def)
next
  case (Some v)
  with assms(2,3) obtain r where "v = Num r" "r \<noteq> 0"
    by (cases v) auto
  with Some show ?thesis
    by (simp add: updatePoint_number spec_get_def scores_of_def adjustment_def)
qed

text \<open>
  With knowledge points that have no inherited name, scores that lie in [0, 1] stay there.
\<close>

lemma updatePoint_in_unit:
  "in_unit m \<Longrightarrow> p \<notin> set object_prototype_names \<Longrightarrow> in_unit (updatePoint isC m p)"
  unfolding in_unit_def
proof (intro allI impI)
  fix point v
  assume m: "\<forall>point v. m point = Some v \<longrightarrow> (\<exists>r. v = Num r \<and> 0 \<le> r \<and> r \<le> 1)"
    and p: "p \<notin> set object_prototype_names"
    and v: "updatePoint isC m p point = Some v"
  show "\<exists>r. v = Num r \<and> 0 \<le> r \<and> r \<le> 1"
  proof (cases "point = p")
    case False
    with v m show ?thesis by (simp add: updatePoint_other)
  next
    case True
    show ?thesis
    proof (cases "m p")
      case None
      with v True p show ?thesis by (auto simp: updatePoint_unseen)
    next
      case (Some w)
      with m obtain r where r: "w = Num r" by blast
      show ?thesis
      proof (cases "r = 0")
        case True
        with Some r v \<open>point = p\<close> show ?thesis by (auto simp: updatePoint_falsy)
      next
        case False
        with Some r v \<open>point = p\<close> show ?thesis by (auto simp: updatePoint_number)
      qed
    qed
  qed
qed

lemma updateMastery_in_unit:
  "in_unit m \<Longrightarrow> set points \<inter> set object_prototype_names = {} \<Longrightarrow>
     in_unit (updateMastery isC points m)"
  unfolding updateMastery_def
  by (induction points arbitrary: m) (auto simp: updatePoint_in_unit)

lemma scores_in_range_plain_tags:
  "scores_in_range s \<Longrightarrow>
   set (knowledgePoints (ev_question e)) \<inter> set object_prototype_names = {} \<Longrightarrow>
     scores_in_range (recordEvent s e)"
  unfolding scores_in_range_def
  by (simp add: masteryMatrix_recordEvent updateMastery_in_unit)

text \<open>
  Claim C3 (not what the code does when a score is 0). The claim: for every recorded
  answer and every knowledge point of the answered question, the new score is
  \<open>clamp(old + (isCorrect ? +0.10 : -0.05), 0, 1)\<close>, an unseen point starting from 0.5.
  The code reads the old score with \<open>newMasteryMatrix[point] || 0.5\<close>, so a stored score
  of exactly 0, which the lower clamp itself produces, is read as 0.5: after a wrong
  answer the score is 0.45, where the rule of the claim gives 0.
\<close>

theorem zero_score_treated_as_unseen:
  "masteryMatrix (userProfile (submitAnswer ''B'' 1500 ''2024-05-01T08:00:00.000Z''
        (state_with [''K1'' \<mapsto> Num 0]))) ''K1'' = Some (Num 0.45) \<and>
   max 0 (min 1 (0 + adjustment False)) = (0::real)"
  by (simp add: sample_defs action_defs)

text \<open>
  The scores of \<open>K1\<close> while wrong answers to \<open>Q1\<close> are recorded into the initial store, in
  exact arithmetic: the tenth wrong answer brings the score to 0 and the eleventh lifts it
  to 0.45. (In double arithmetic the tenth leaves a positive rounding residue, the
  eleventh stores 0 and the twelfth 0.45.)
\<close>

lemma wrong_answer_K1:
  "masteryMatrix (userProfile (recordEvent s (answers Q1 ''B'' t))) ''K1'' =
     updatePoint False (masteryMatrix (userProfile s)) ''K1'' ''K1''"
  by (simp add: masteryMatrix_recordEvent updateMastery_def event_correct_def sample_defs)

lemma wrong_answers_from_fresh:
  "masteryMatrix (userProfile (recordEvents (replicate 10 (answers Q1 ''B'' t)) initial_state)) ''K1''
     = Some (Num 0)"
  "masteryMatrix (userProfile (recordEvents (replicate 11 (answers Q1 ''B'' t)) initial_state)) ''K1''
     = Some (Num 0.45)"
  "masteryMatrix (userProfile (recordEvents (replicate 12 (answers Q1 ''B'' t)) initial_state)) ''K1''
     = Some (Num 0.4)"
proof -
  let ?e = "answers Q1 ''B'' t"
  let ?k = "\<lambda>n. masteryMatrix (userProfile (recordEvents (replicate n ?e) initial_state)) ''K1''"
  have step: "?k (Suc n) = updatePoint False
      (masteryMatrix (userProfile (recordEvents (replicate n ?e) initial_state))) ''K1'' ''K1''" for n
  proof -
    have "replicate (Suc n) ?e = replicate n ?e @ [?e]"
      by (simp add: replicate_append_same)
    then show ?thesis
      by (simp only: recordEvents_snoc wrong_answer_K1)
  qed
  have k0: "?k 0 = None"
    by (simp add: recordEvents_Nil initial_state_def initial_profile_def)
  have k1: "?k (Suc 0) = Some (Num 0.45)"
    unfolding step using k0 by (simp add: updatePoint_unseen object_prototype_names_def adjustment_def)
  have down: "?k (Suc n) = Some (Num (r - 0.05))" if "?k n = Some (Num r)" "0.05 \<le> r" "r \<le> 1" for n r
    unfolding step using that by (simp add: updatePoint_number adjustment_def)
  have k2: "?k 2 = Some (Num 0.4)"
    using down [OF k1] by (simp add: numeral_2_eq_2)
  have k3: "?k 3 = Some (Num 0.35)"
    using down [OF k2] by (simp add: eval_nat_numeral)
  have k4: "?k 4 = Some (Num 0.3)"
    using down [OF k3] by (simp add: eval_nat_numeral)
  have k5: "?k 5 = Some (Num 0.25)"
    using down [OF k4] by (simp add: eval_nat_numeral)
  have k6: "?k 6 = Some (Num 0.2)"
    using down [OF k5] by (simp add: eval_nat_numeral)
  have k7: "?k 7 = Some (Num 0.15)"
    using down [OF k6] by (simp add: eval_nat_numeral)
  have k8: "?k 8 = Some (Num 0.1)"
    using down [OF k7] by (simp add: eval_nat_numeral)
  have k9: "?k 9 = Some (Num 0.05)"
    using down [OF k8] by (simp add: eval_nat_numeral)
  show k10: "?k 10 = Some (Num 0)"
    using down [OF k9] by (simp add: eval_nat_numeral)
  have "?k (Suc 10) = Some (Num 0.45)"
    unfolding step using k10 by (simp add: updatePoint_falsy adjustment_def)
  then show k11: "?k 11 = Some (Num 0.45)"
    by (simp add: eval_nat_numeral)
  show "?k 12 = Some (Num 0.4)"
    using down [OF k11] by (simp add: eval_nat_numeral)
qed

text \<open>
  Claim C5 (not what the code does for an inherited name). The claim: from a state whose
  scores all lie in [0, 1], every score stays in [0, 1] after each update. The matrix is
  a plain object, so the read \<open>newMasteryMatrix[point]\<close> of an unseen point that bears the
  name of a member of \<open>Object.prototype\<close> yields that member; it is truthy, the sum with
  the adjustment is a string, and the clamp \<open>Math.max(0, Math.min(1, ...))\<close> stores \<open>NaN\<close>.
  Here a store whose only score is 0.5 records one answer to a question tagged
  \<open>constructor\<close>.
\<close>

theorem inherited_name_stores_NaN:
  "scores_in_range (state_with [''K1'' \<mapsto> Num 0.5]) \<and>
   masteryMatrix (userProfile
      (recordEvents [answers (sample_question ''Q4'' [''constructor'']) ''A'' ''2024-05-01T08:00:00.000Z'']
         (state_with [''K1'' \<mapsto> Num 0.5]))) ''constructor'' = Some NaN \<and>
   \<not> scores_in_range
      (recordEvents [answers (sample_question ''Q4'' [''constructor'']) ''A'' ''2024-05-01T08:00:00.000Z'']
         (state_with [''K1'' \<mapsto> Num 0.5]))"
proof -
  let ?s = "recordEvents
      [answers (sample_question ''Q4'' [''constructor'']) ''A'' ''2024-05-01T08:00:00.000Z'']
      (state_with [''K1'' \<mapsto> Num 0.5])"
  have "\<exists>r. Num 0.5 = Num r \<and> 0 \<le> r \<and> r \<le> 1"
    by (intro exI [of _ "0.5"]) simp
  then have before: "scores_in_range (state_with [''K1'' \<mapsto> Num 0.5])"
    by (simp add: scores_in_range_def in_unit_def sample_defs del: num.inject)
  have stored: "masteryMatrix (userProfile ?s) ''constructor'' = Some NaN"
    by (simp add: sample_defs action_defs)
  then have "\<not> scores_in_range ?s"
    unfolding scores_in_range_def in_unit_def by (metis num.distinct(1) option.inject)
  with before stored show ?thesis by blast
qed

text \<open>
  Claim C10. A call of \<open>submitAnswer\<close> leaves the score of every knowledge point that is
  not tagged on the answered question exactly as it was (also its absence); with no
  current question nothing changes at all.
\<close>

theorem submitAnswer_mastery_frame:
  "(\<forall>q. currentQuestion s = Some q \<longrightarrow> point \<notin> set (knowledgePoints q)) \<Longrightarrow>
     masteryMatrix (userProfile (submitAnswer answer rt now s)) point =
     masteryMatrix (userProfile s) point"
  by (simp add: masteryMatrix_submitAnswer updateMastery_other split: option.splits)

theorem submitAnswer_mastery_frame_witness:
  "currentQuestion (state_with [''K1'' \<mapsto> Num 0.5, ''K2'' \<mapsto> Num 0.7]) = Some Q1 \<and>
   ''K2'' \<notin> set (knowledgePoints Q1) \<and>
   masteryMatrix (userProfile (submitAnswer ''A'' 1500 ''2024-05-01T08:00:00.000Z''
       (state_with [''K1'' \<mapsto> Num 0.5, ''K2'' \<mapsto> Num 0.7]))) ''K2'' = Some (Num 0.7)"
proof -
  have h: "\<forall>q. currentQuestion (state_with [''K1'' \<mapsto> Num 0.5, ''K2'' \<mapsto> Num 0.7]) = Some q \<longrightarrow>
             ''K2'' \<notin> set (knowledgePoints q)"
    by (simp add: sample_defs)
  from submitAnswer_mastery_frame [OF h, of "''A''" 1500 "''2024-05-01T08:00:00.000Z''"]
  show ?thesis by (simp add: sample_defs)
qed

section \<open>Session counters\<close>

lemma streak_submitAnswer:
  "currentQuestion s = Some q \<Longrightarrow>
     streak (submitAnswer a rt now s) = (if a = correctAnswer q then streak s + 1 else 0)"
  by (simp add: submitAnswer_def Let_def)

lemma longestStreak_submitAnswer:
  "currentQuestion s = Some q \<Longrightarrow>
     longestStreak (userProfile (submitAnswer a rt now s)) =
       max (longestStreak (userProfile s)) (streak (submitAnswer a rt now s))"
  by (simp add: submitAnswer_def Let_def)

lemma longestStreak_mono:
  "longestStreak (userProfile s) \<le> longestStreak (userProfile (submitAnswer a rt now s))"
  by (cases "currentQuestion s") (simp_all add: submitAnswer_def Let_def)

lemma streak_recordEvent:
  "streak (recordEvent s e) = (if event_correct e then streak s + 1 else 0)"
  by (simp add: recordEvent_def setCurrentQuestion_def submitAnswer_def Let_def event_correct_def)

lemma longestStreak_recordEvent:
  "longestStreak (userProfile (recordEvent s e)) =
     max (longestStreak (userProfile s)) (streak (recordEvent s e))"
  by (simp add: recordEvent_def setCurrentQuestion_def submitAnswer_def Let_def)

lemma streaks_snoc:
  "streaks (es @ [e]) s = streaks es s @ [streak (recordEvents (es @ [e]) s)]"
proof -
  have "map (\<lambda>n. streak (recordEvents (take n (es @ [e])) s)) [0..<Suc (length es)] =
        map (\<lambda>n. streak (recordEvents (take n es) s)) [0..<Suc (length es)]"
    by (rule map_cong) auto
  then show ?thesis
    by (simp add: streaks_def)
qed

lemma streaks_nonempty: "streaks es s \<noteq> []"
  by (simp add: streaks_def)

lemma longest_running_max:
  "longestStreak (userProfile s) = streak s \<Longrightarrow>
   longestStreak (userProfile (recordEvents es s)) = Max (set (streaks es s))"
proof (induction es rule: rev_induct)
  case Nil
  then show ?case by (simp add: streaks_def recordEvents_def)
next
  case (snoc e es)
  have ne: "set (streaks es s) \<noteq> {}" using streaks_nonempty by simp
  have "longestStreak (userProfile (recordEvents (es @ [e]) s)) =
        max (Max (set (streaks es s))) (streak (recordEvents (es @ [e]) s))"
    using snoc by (simp add: recordEvents_snoc longestStreak_recordEvent)
  also have "\<dots> = Max (set (streaks (es @ [e]) s))"
    using ne by (simp add: streaks_snoc max.commute)
  finally show ?case .
qed

lemma streaks_after_snoc:
  "streaks_after (es @ [e]) s = streaks_after es s @ [streak (recordEvents (es @ [e]) s)]"
proof -
  have "map (\<lambda>n. streak (recordEvents (take (Suc n) (es @ [e])) s)) [0..<length es] =
        map (\<lambda>n. streak (recordEvents (take (Suc n) es) s)) [0..<length es]"
    by (rule map_cong) auto
  then show ?thesis
    by (simp add: streaks_after_def)
qed

text \<open>
  From any state, \<open>longestStreak\<close> after a run of events is the maximum of its starting
  value and the values the streak has taken after each event.
\<close>

lemma longest_running_max_from:
  "longestStreak (userProfile (recordEvents es s)) =
     Max (set (longestStreak (userProfile s) # streaks_after es s))"
proof (induction es rule: rev_induct)
  case Nil
  show ?case by (simp add: streaks_after_def recordEvents_def)
next
  case (snoc e es)
  have "longestStreak (userProfile (recordEvents (es @ [e]) s)) =
        max (Max (set (longestStreak (userProfile s) # streaks_after es s)))
            (streak (recordEvents (es @ [e]) s))"
    using snoc by (simp add: recordEvents_snoc longestStreak_recordEvent)
  also have "\<dots> = Max (set (longestStreak (userProfile s) # streaks_after (es @ [e]) s))"
  proof -
    have "set (longestStreak (userProfile s) # streaks_after (es @ [e]) s) =
        insert (streak (recordEvents (es @ [e]) s))
          (set (longestStreak (userProfile s) # streaks_after es s))"
      by (auto simp: streaks_after_snoc)
    then show ?thesis
      by (simp only: Max_insert [OF finite_set] max.commute) simp
  qed
  finally show ?case .
qed

lemma longestStreak_mono_events:
  "longestStreak (userProfile s) \<le> longestStreak (userProfile (recordEvents es s))"
  unfolding longest_running_max_from by (rule Max_ge) simp_all

lemma resetSession_keeps_streaks:
  "streak (resetSession s) = streak s \<and>
   longestStreak (userProfile (resetSession s)) = longestStreak (userProfile s)"
  by (simp add: resetSession_def)

lemma four_events:
  assumes "map event_correct es4 = [True, True, False, True]"
  shows "streak (recordEvents es4 s) = 1 \<and>
         longestStreak (userProfile (recordEvents es4 s)) =
           max (longestStreak (userProfile s)) (max (streak s + 2) 1)"
proof -
  from assms obtain e1 e2 e3 e4 where es4: "es4 = [e1, e2, e3, e4]"
    and c: "event_correct e1" "event_correct e2" "\<not> event_correct e3" "event_correct e4"
    by (auto simp: map_eq_Cons_conv)
  show ?thesis
    using c
    by (simp add: es4 recordEvents_Cons recordEvents_Nil longestStreak_recordEvent
        streak_recordEvent)
qed

text \<open>
  Claim C6 (as the code has it). When an answer is recorded, an incorrect one sets the
  streak to 0 and a correct one adds 1 to it; \<open>longestStreak\<close> becomes the maximum of its
  old value and the new streak, so it never decreases. Neither counter belongs to a
  session: \<open>resetSession\<close> leaves both as they are. Over any run of events, from any state,
  \<open>longestStreak\<close> is the maximum of its starting value and of the values the streak has
  taken after each event. For any four events that are correct, correct, incorrect,
  correct in this order, the streak ends at 1 and \<open>longestStreak\<close> at the maximum of its
  starting value, the starting streak plus 2, and 1; recorded into the initial store,
  they leave \<open>longestStreak\<close> at 2.
\<close>

theorem streak_counters:
  "(currentQuestion s = Some q \<longrightarrow>
      streak (submitAnswer a rt now s) = (if a = correctAnswer q then streak s + 1 else 0) \<and>
      longestStreak (userProfile (submitAnswer a rt now s)) =
        max (longestStreak (userProfile s)) (streak (submitAnswer a rt now s))) \<and>
   longestStreak (userProfile s) \<le> longestStreak (userProfile (submitAnswer a rt now s)) \<and>
   longestStreak (userProfile s) \<le> longestStreak (userProfile (recordEvents es s)) \<and>
   longestStreak (userProfile (recordEvents es s)) =
     Max (set (longestStreak (userProfile s) # streaks_after es s)) \<and>
   longestStreak (userProfile (recordEvents es initial_state)) =
     Max (set (streaks es initial_state)) \<and>
   streak (resetSession s) = streak s \<and>
   longestStreak (userProfile (resetSession s)) = longestStreak (userProfile s) \<and>
   (map event_correct es4 = [True, True, False, True] \<longrightarrow>
      streak (recordEvents es4 s) = 1 \<and>
      longestStreak (userProfile (recordEvents es4 s)) =
        max (longestStreak (userProfile s)) (max (streak s + 2) 1) \<and>
      longestStreak (userProfile (recordEvents es4 initial_state)) = 2 \<and>
      streak (recordEvents es4 initial_state) = 1)"
proof -
  have init: "longestStreak (userProfile initial_state) = streak initial_state"
    "streak initial_state = 0"
    by (simp_all add: initial_state_def initial_profile_def)
  have ex: "streak (recordEvents es4 s) = 1 \<and>
      longestStreak (userProfile (recordEvents es4 s)) =
        max (longestStreak (userProfile s)) (max (streak s + 2) 1) \<and>
      longestStreak (userProfile (recordEvents es4 initial_state)) = 2 \<and>
      streak (recordEvents es4 initial_state) = 1"
    if p: "map event_correct es4 = [True, True, False, True]"
    using four_events [OF p, of s] four_events [OF p, of initial_state] init by simp
  have run: "longestStreak (userProfile (recordEvents es s)) =
     Max (set (longestStreak (userProfile s) # streaks_after es s))"
    by (rule longest_running_max_from)
  show ?thesis
    using ex init(1) run
    by (simp add: streak_submitAnswer longestStreak_submitAnswer longestStreak_mono
        longest_running_max longestStreak_mono_events resetSession_keeps_streaks)
qed

theorem streak_counters_witness:
  "currentQuestion (state_with Map.empty) = Some Q1 \<and>
   streak (submitAnswer ''A'' 1500 ''2024-05-01T08:00:00.000Z'' (state_with Map.empty)) = 1 \<and>
   streak (submitAnswer ''B'' 1500 ''2024-05-01T08:00:00.000Z''
             (submitAnswer ''A'' 1500 ''2024-05-01T08:00:00.000Z'' (state_with Map.empty))) = 0 \<and>
   map event_correct
     [answers Q1 ''A'' ''2024-05-01T08:00:00.000Z'', answers Q2 ''A'' ''2024-05-01T08:01:00.000Z'',
      answers Q3 ''B'' ''2024-05-01T08:02:00.000Z'', answers Q1 ''A'' ''2024-05-01T08:03:00.000Z'']
     = [True, True, False, True] \<and>
   longestStreak (userProfile (recordEvents
     [answers Q1 ''A'' ''2024-05-01T08:00:00.000Z'', answers Q2 ''A'' ''2024-05-01T08:01:00.000Z'',
      answers Q3 ''B'' ''2024-05-01T08:02:00.000Z'', answers Q1 ''A'' ''2024-05-01T08:03:00.000Z'']
     initial_state)) = 2 \<and>
   streak (recordEvents
     [answers Q1 ''A'' ''2024-05-01T08:00:00.000Z'', answers Q2 ''A'' ''2024-05-01T08:01:00.000Z'',
      answers Q3 ''B'' ''2024-05-01T08:02:00.000Z'', answers Q1 ''A'' ''2024-05-01T08:03:00.000Z'']
     initial_state) = 1 \<and>
   longestStreak (userProfile (recordEvents
     [answers Q1 ''A'' ''2024-05-01T08:00:00.000Z'', answers Q2 ''A'' ''2024-05-01T08:01:00.000Z'',
      answers Q3 ''B'' ''2024-05-01T08:02:00.000Z'', answers Q1 ''A'' ''2024-05-01T08:03:00.000Z'']
     (submitAnswer ''A'' 1500 ''2024-05-01T08:00:00.000Z'' (state_with Map.empty)))) = 3"
proof -
  let ?s0 = "state_with Map.empty"
  let ?s1 = "submitAnswer ''A'' 1500 ''2024-05-01T08:00:00.000Z'' ?s0"
  let ?es = "[answers Q1 ''A'' ''2024-05-01T08:00:00.000Z'', answers Q2 ''A'' ''2024-05-01T08:01:00.000Z'',
      answers Q3 ''B'' ''2024-05-01T08:02:00.000Z'', answers Q1 ''A'' ''2024-05-01T08:03:00.000Z'']"
  have q0: "currentQuestion ?s0 = Some Q1"
    by (simp add: sample_defs)
  have q1: "currentQuestion ?s1 = Some Q1"
    by (simp add: currentQuestion_submitAnswer q0)
  have pat: "map event_correct ?es = [True, True, False, True]"
    by (simp add: event_correct_def sample_defs)
  have st0: "streak ?s0 = 0" "correctAnswer Q1 = ''A''" "longestStreak (userProfile ?s0) = 0"
    by (simp_all add: sample_defs)
  from streak_counters [of ?s0 Q1 "''A''" 1500 "''2024-05-01T08:00:00.000Z''" ?es ?es]
    streak_counters [of ?s1 Q1 "''B''" 1500 "''2024-05-01T08:00:00.000Z''" ?es ?es]
    q0 q1 pat st0
  show ?thesis by simp
qed

text \<open>
  The claim fails on the code for a session that is not the first. Three correct answers
  are recorded into the initial store and \<open>resetSession\<close> starts a new session (its answer
  count is 0 again). The four events correct, correct, incorrect, correct of that session
  end with the streak at 1 and with \<open>longestStreak\<close> at 5, not 2: the streak of 3 and the
  high-water mark came along from the session before.
\<close>

theorem streak_kept_across_sessions:
  "sessionQuestions (resetSession (recordEvents
     [answers Q1 ''A'' ''2024-05-01T07:00:00.000Z'', answers Q2 ''A'' ''2024-05-01T07:01:00.000Z'',
      answers Q3 ''A'' ''2024-05-01T07:02:00.000Z''] initial_state)) = 0 \<and>
   streak (recordEvents
     [answers Q1 ''A'' ''2024-05-01T08:00:00.000Z'', answers Q2 ''A'' ''2024-05-01T08:01:00.000Z'',
      answers Q3 ''B'' ''2024-05-01T08:02:00.000Z'', answers Q1 ''A'' ''2024-05-01T08:03:00.000Z'']
     (resetSession (recordEvents
       [answers Q1 ''A'' ''2024-05-01T07:00:00.000Z'', answers Q2 ''A'' ''2024-05-01T07:01:00.000Z'',
        answers Q3 ''A'' ''2024-05-01T07:02:00.000Z''] initial_state))) = 1 \<and>
   longestStreak (userProfile (recordEvents
     [answers Q1 ''A'' ''2024-05-01T08:00:00.000Z'', answers Q2 ''A'' ''2024-05-01T08:01:00.000Z'',
      answers Q3 ''B'' ''2024-05-01T08:02:00.000Z'', answers Q1 ''A'' ''2024-05-01T08:03:00.000Z'']
     (resetSession (recordEvents
       [answers Q1 ''A'' ''2024-05-01T07:00:00.000Z'', answers Q2 ''A'' ''2024-05-01T07:01:00.000Z'',
        answers Q3 ''A'' ''2024-05-01T07:02:00.000Z''] initial_state)))) = 5"
proof -
  have e: "event_correct (answers Q1 ''A'' t)" "event_correct (answers Q2 ''A'' t)"
    "event_correct (answers Q3 ''A'' t)" "\<not> event_correct (answers Q3 ''B'' t)" for t
    by (simp_all add: event_correct_def sample_defs)
  have i: "streak initial_state = 0" "longestStreak (userProfile initial_state) = 0"
    by (simp_all add: initial_state_def initial_profile_def)
  show ?thesis
    by (simp add: recordEvents_Cons recordEvents_Nil streak_recordEvent longestStreak_recordEvent
        resetSession_keeps_streaks e i)
      (simp add: resetSession_def)
qed

section \<open>The answer history\<close>




section \<open>Replay\<close>

lemma recordEvent_step:
  "\<exists>r. answerHistory (recordEvent s e) = answerHistory s @ [r] \<and>
       isCorrect r = event_correct e \<and> question r = ev_question e \<and>
       sessionQuestions (recordEvent s e) = sessionQuestions s + 1 \<and>
       sessionCorrect (recordEvent s e) = sessionCorrect s + (if event_correct e then 1 else 0)"
  by (simp add: recordEvent_def setCurrentQuestion_def submitAnswer_def Let_def event_correct_def)

lemma spec_replay_snoc: "spec_replay (rs @ [r]) = spec_apply (spec_replay rs) r"
  by (simp add: spec_replay_def)

text \<open>
  The counters of the store agree with a replay of its answer history, for every sequence
  of events recorded into the initial store.
\<close>

lemma replay_counters_agree:
  "answered (spec_replay (answerHistory (recordEvents es initial_state))) =
     sessionQuestions (recordEvents es initial_state) \<and>
   correct (spec_replay (answerHistory (recordEvents es initial_state))) =
     sessionCorrect (recordEvents es initial_state) \<and>
   run_streak (spec_replay (answerHistory (recordEvents es initial_state))) =
     streak (recordEvents es initial_state) \<and>
   longest (spec_replay (answerHistory (recordEvents es initial_state))) =
     longestStreak (userProfile (recordEvents es initial_state))"
proof (induction es rule: rev_induct)
  case Nil
  show ?case
    by (simp add: recordEvents_def initial_state_def initial_profile_def spec_replay_def
        spec_fresh_def)
next
  case (snoc e es)
  let ?s = "recordEvents es initial_state"
  obtain r where r: "answerHistory (recordEvent ?s e) = answerHistory ?s @ [r]"
    "isCorrect r = event_correct e"
    "sessionQuestions (recordEvent ?s e) = sessionQuestions ?s + 1"
    "sessionCorrect (recordEvent ?s e) = sessionCorrect ?s + (if event_correct e then 1 else 0)"
    using recordEvent_step by blast
  show ?case
    using snoc r
    by (simp add: recordEvents_snoc spec_replay_snoc spec_apply_def Let_def streak_recordEvent
        longestStreak_recordEvent)
qed

lemma replay_wrong_answer_K1:
  "scores (spec_replay (answerHistory (recordEvent s (answers Q1 ''B'' t)))) ''K1'' =
     Some (max 0 (min 1 (spec_get (scores (spec_replay (answerHistory s))) ''K1'' - 0.05)))"
proof -
  obtain r where r: "answerHistory (recordEvent s (answers Q1 ''B'' t)) = answerHistory s @ [r]"
    "isCorrect r = event_correct (answers Q1 ''B'' t)" "question r = ev_question (answers Q1 ''B'' t)"
    using recordEvent_step by blast
  have "\<not> isCorrect r" "knowledgePoints (question r) = [''K1'']"
    using r by (simp_all add: event_correct_def sample_defs)
  then show ?thesis
    by (simp add: r(1) spec_replay_snoc spec_apply_def spec_update_def spec_updatePoint_def Let_def)
qed

lemma replay_wrong_answers_from_fresh:
  "scores (spec_replay (answerHistory
      (recordEvents (replicate 12 (answers Q1 ''B'' t)) initial_state))) ''K1'' = Some 0"
proof -
  let ?e = "answers Q1 ''B'' t"
  let ?k = "\<lambda>n. scores (spec_replay (answerHistory (recordEvents (replicate n ?e) initial_state))) ''K1''"
  have step: "?k (Suc n) = Some (max 0 (min 1 (spec_get
      (scores (spec_replay (answerHistory (recordEvents (replicate n ?e) initial_state)))) ''K1'' - 0.05)))"
    for n
  proof -
    have "replicate (Suc n) ?e = replicate n ?e @ [?e]"
      by (simp add: replicate_append_same)
    then show ?thesis
      by (simp only: recordEvents_snoc replay_wrong_answer_K1)
  qed
  have k0: "?k 0 = None"
    by (simp add: recordEvents_Nil initial_state_def spec_replay_def spec_fresh_def)
  have k1: "?k (Suc 0) = Some 0.45"
    unfolding step using k0 by (simp add: spec_get_def)
  have down: "?k (Suc n) = Some (max 0 (r - 0.05))" if "?k n = Some r" "r \<le> 1" for n r
    unfolding step using that by (simp add: spec_get_def)
  have k2: "?k 2 = Some 0.4"
    using down [OF k1] by (simp add: numeral_2_eq_2)
  have k3: "?k 3 = Some 0.35"
    using down [OF k2] by (simp add: eval_nat_numeral)
  have k4: "?k 4 = Some 0.3"
    using down [OF k3] by (simp add: eval_nat_numeral)
  have k5: "?k 5 = Some 0.25"
    using down [OF k4] by (simp add: eval_nat_numeral)
  have k6: "?k 6 = Some 0.2"
    using down [OF k5] by (simp add: eval_nat_numeral)
  have k7: "?k 7 = Some 0.15"
    using down [OF k6] by (simp add: eval_nat_numeral)
  have k8: "?k 8 = Some 0.1"
    using down [OF k7] by (simp add: eval_nat_numeral)
  have k9: "?k 9 = Some 0.05"
    using down [OF k8] by (simp add: eval_nat_numeral)
  have k10: "?k 10 = Some 0"
    using down [OF k9] by (simp add: eval_nat_numeral)
  have k11: "?k 11 = Some 0"
    using down [OF k10] by (simp add: eval_nat_numeral)
  show "?k 12 = Some 0"
    using down [OF k11] by (simp add: eval_nat_numeral)
qed

text \<open>
  Claim C4 (not what the code does once a score has reached 0). The claim: replaying the
  full sequence of answer events, in order, into a fresh mastery model and fresh session
  counters gives the scores and counters the store has built up by \<open>submitAnswer\<close>. The
  counters agree (lemma \<open>replay_counters_agree\<close>); the scores do not, because \<open>submitAnswer\<close>
  reads a stored 0 as 0.5. Twelve wrong answers to \<open>Q1\<close> are recorded into the initial
  store: replayed by the update rule, the score of \<open>K1\<close> falls to 0 and stays there; in the
  store it is 0.4 (in exact arithmetic: 0 after the tenth answer, 0.45 after the
  eleventh).
\<close>

theorem replay_differs_after_zero_score:
  "scores (spec_replay (answerHistory
      (recordEvents (replicate 12 (answers Q1 ''B'' ''2024-05-01T08:00:00.000Z'')) initial_state)))
      ''K1'' = Some 0 \<and>
   masteryMatrix (userProfile
      (recordEvents (replicate 12 (answers Q1 ''B'' ''2024-05-01T08:00:00.000Z'')) initial_state))
      ''K1'' = Some (Num 0.4)"
  by (simp add: replay_wrong_answers_from_fresh wrong_answers_from_fresh)

section \<open>The wrong-question book\<close>

lemma findIndex_found:
  "x \<in> set xs \<Longrightarrow> P x \<Longrightarrow>
     0 \<le> findIndex P xs \<and> nat (findIndex P xs) < length xs \<and> P (xs ! nat (findIndex P xs))"
proof (induction xs)
  case Nil
  then show ?case by simp
next
  case (Cons y ys)
  show ?case
  proof (cases "P y")
    case True
    then show ?thesis by simp
  next
    case False
    with Cons.prems have "x \<in> set ys" by auto
    from Cons.IH [OF this Cons.prems(2)] False show ?thesis
      by (simp add: Let_def nat_add_distrib)
  qed
qed

lemma in_filter_indexed:
  "y \<in> set (filter_indexed f xs) \<longleftrightarrow> (\<exists>i < length xs. xs ! i = y \<and> f y i xs)"
  by (auto simp: filter_indexed_def in_set_enumerate_eq image_iff)

text \<open>
  Keeping the elements that stand at the first index of their own key keeps every key of
  the list, and keeps it once.
\<close>

lemma keys_filter_indexed_first:
  "k \<in> key ` set (filter_indexed (\<lambda>x index self. int index = findIndex (\<lambda>q. key q = key x) self) xs)
     \<longleftrightarrow> k \<in> key ` set xs"
proof
  assume "k \<in> key ` set (filter_indexed (\<lambda>x index self. int index = findIndex (\<lambda>q. key q = key x) self) xs)"
  then show "k \<in> key ` set xs"
    by (auto simp: in_filter_indexed)
next
  assume "k \<in> key ` set xs"
  then obtain x where x: "x \<in> set xs" "key x = k" by auto
  let ?i = "nat (findIndex (\<lambda>q. key q = k) xs)"
  from findIndex_found [of x xs "\<lambda>q. key q = k"] x
  have i: "0 \<le> findIndex (\<lambda>q. key q = k) xs" "?i < length xs" "key (xs ! ?i) = k"
    by auto
  have "xs ! ?i \<in> set (filter_indexed (\<lambda>x index self. int index = findIndex (\<lambda>q. key q = key x) self) xs)"
    unfolding in_filter_indexed using i by (intro exI [of _ ?i]) simp
  then show "k \<in> key ` set (filter_indexed (\<lambda>x index self. int index = findIndex (\<lambda>q. key q = key x) self) xs)"
    by (rule rev_image_eqI) (simp add: i(3))
qed

lemma distinct_keys_filter_indexed_first:
  "distinct (map key (filter_indexed (\<lambda>x index self. int index = findIndex (\<lambda>q. key q = key x) self) xs))"
proof -
  let ?Q = "\<lambda>(index, x). int index = findIndex (\<lambda>q. key q = key x) xs"
  have d: "distinct (filter ?Q (enumerate 0 xs))"
    by (simp add: distinct_enumerate)
  have inj: "inj_on (key \<circ> snd) (set (filter ?Q (enumerate 0 xs)))"
  proof (rule inj_onI)
    fix a b
    assume a: "a \<in> set (filter ?Q (enumerate 0 xs))" and b: "b \<in> set (filter ?Q (enumerate 0 xs))"
      and eq: "(key \<circ> snd) a = (key \<circ> snd) b"
    obtain i x j y where ab: "a = (i, x)" "b = (j, y)" by (cases a, cases b) auto
    from a b eq ab have "int i = int j" by simp
    moreover from a b ab have "xs ! i = x" "xs ! j = y"
      by (auto simp: in_set_enumerate_eq)
    ultimately show "a = b" using ab by simp
  qed
  have "distinct (map (key \<circ> snd) (filter ?Q (enumerate 0 xs)))"
    using d inj by (simp add: distinct_map)
  then show ?thesis
    by (simp add: filter_indexed_def)
qed

lemma set_filter_indexed: "set (filter_indexed f xs) \<subseteq> set xs"
  by (auto simp: in_filter_indexed)

lemma subseq_filter_indexed: "subseq (filter_indexed f xs) xs"
proof -
  have "subseq (map snd (filter (\<lambda>(index, x). f x index xs) (enumerate 0 xs)))
      (map snd (enumerate 0 xs))"
    by (intro subseq_map subseq_filter_left)
  then show ?thesis
    by (simp add: filter_indexed_def)
qed

lemma getWrongQuestions_ids:
  "qid \<in> set (map id_q (getWrongQuestions s)) \<longleftrightarrow>
     (\<exists>r \<in> set (answerHistory s). \<not> isCorrect r \<and> id_q (question r) = qid)"
proof -
  have "qid \<in> id_q ` set (getWrongQuestions s) \<longleftrightarrow>
        qid \<in> id_q ` set (map question (filter (\<lambda>record. \<not> isCorrect record) (answerHistory s)))"
    unfolding getWrongQuestions_def by (rule keys_filter_indexed_first)
  then show ?thesis by auto
qed

text \<open>
  Claim C1 (as the code has it). \<open>getWrongQuestions\<close> does not look for the latest event of
  a question. It returns the questions that have at least one incorrect record in the
  answer history, whether or not a later answer was correct: every returned question is
  the question of an incorrect record, a question id is returned if and only if some
  record of that id is incorrect, no id is returned twice, and the questions come in the
  order in which the history holds them.
\<close>

theorem getWrongQuestions_any_miss:
  "distinct (map id_q (getWrongQuestions s)) \<and>
   (qid \<in> set (map id_q (getWrongQuestions s)) \<longleftrightarrow>
      (\<exists>r \<in> set (answerHistory s). \<not> isCorrect r \<and> id_q (question r) = qid)) \<and>
   set (getWrongQuestions s) \<subseteq>
     question ` set (filter (\<lambda>record. \<not> isCorrect record) (answerHistory s)) \<and>
   subseq (getWrongQuestions s)
     (map question (filter (\<lambda>record. \<not> isCorrect record) (answerHistory s)))"
proof -
  have "subseq (getWrongQuestions s)
      (map question (filter (\<lambda>record. \<not> isCorrect record) (answerHistory s)))"
    unfolding getWrongQuestions_def by (rule subseq_filter_indexed)
  moreover have "distinct (map id_q (getWrongQuestions s))"
    unfolding getWrongQuestions_def by (rule distinct_keys_filter_indexed_first)
  moreover have "set (getWrongQuestions s) \<subseteq>
      question ` set (filter (\<lambda>record. \<not> isCorrect record) (answerHistory s))"
  proof -
    have "set (getWrongQuestions s) \<subseteq>
        set (map question (filter (\<lambda>record. \<not> isCorrect record) (answerHistory s)))"
      unfolding getWrongQuestions_def by (rule set_filter_indexed)
    then show ?thesis by (simp only: set_map)
  qed
  ultimately show ?thesis
    using getWrongQuestions_ids [of qid s] by blast
qed

theorem getWrongQuestions_any_miss_witness:
  "distinct (map id_q (getWrongQuestions (recordEvents
      [answers Q1 ''B'' ''2024-05-01T08:00:00.000Z'', answers Q2 ''B'' ''2024-05-01T08:01:00.000Z'',
       answers Q1 ''A'' ''2024-05-01T08:02:00.000Z''] initial_state))) \<and>
   ''Q1'' \<in> set (map id_q (getWrongQuestions (recordEvents
      [answers Q1 ''B'' ''2024-05-01T08:00:00.000Z'', answers Q2 ''B'' ''2024-05-01T08:01:00.000Z'',
       answers Q1 ''A'' ''2024-05-01T08:02:00.000Z''] initial_state)))"
proof -
  let ?s = "recordEvents
      [answers Q1 ''B'' ''2024-05-01T08:00:00.000Z'', answers Q2 ''B'' ''2024-05-01T08:01:00.000Z'',
       answers Q1 ''A'' ''2024-05-01T08:02:00.000Z''] initial_state"
  have "\<exists>r \<in> set (answerHistory ?s). \<not> isCorrect r \<and> id_q (question r) = ''Q1''"
    by (simp add: sample_defs action_defs)
  with getWrongQuestions_any_miss [of ?s "''Q1''"] show ?thesis by blast
qed

text \<open>
  The claim fails on the code at the specification's own example: after a wrong answer
  to \<open>Q1\<close>, a wrong answer to \<open>Q2\<close> and then a correct answer to \<open>Q1\<close>, with increasing time
  stamps, the latest event of \<open>Q1\<close> is correct, and \<open>getWrongQuestions\<close> still returns \<open>Q1\<close>
  along with \<open>Q2\<close>.
\<close>

theorem getWrongQuestions_latest_counterexample:
  "getWrongQuestions
     (recordEvents [answers Q1 ''B'' ''2024-05-01T08:00:00.000Z'',
                    answers Q2 ''B'' ''2024-05-01T08:01:00.000Z'',
                    answers Q1 ''A'' ''2024-05-01T08:02:00.000Z''] initial_state) = [Q1, Q2] \<and>
   getWrongQuestions
     (recordEvents [answers Q1 ''B'' ''2024-05-01T08:00:00.000Z'',
                    answers Q2 ''B'' ''2024-05-01T08:01:00.000Z'',
                    answers Q1 ''A'' ''2024-05-01T08:02:00.000Z''] initial_state) \<noteq> [Q2]"
  by (simp add: getWrongQuestions_def filter_indexed_def enumerate_eq_zip sample_defs action_defs)

text \<open>
  Claim C9. \<open>clearWrongAnswers\<close> applied twice gives the same state as applied once, and
  applied to a state whose wrong-question list is empty it returns that state unchanged.
\<close>

theorem clearWrongAnswers_idempotent:
  "clearWrongAnswers (clearWrongAnswers s) = clearWrongAnswers s \<and>
   (getWrongQuestions s = [] \<longrightarrow> clearWrongAnswers s = s)"
proof -
  have "clearWrongAnswers s = s" if e: "getWrongQuestions s = []"
  proof -
    have "isCorrect r" if "r \<in> set (answerHistory s)" for r
    proof (rule ccontr)
      assume "\<not> isCorrect r"
      with that have "id_q (question r) \<in> set (map id_q (getWrongQuestions s))"
        unfolding getWrongQuestions_ids by blast
      with e show False by simp
    qed
    then have "filter (\<lambda>record. isCorrect record) (answerHistory s) = answerHistory s"
      by (simp add: filter_id_conv)
    then show ?thesis by (simp add: clearWrongAnswers_def)
  qed
  then show ?thesis by (simp add: clearWrongAnswers_def)
qed

theorem clearWrongAnswers_idempotent_witness:
  "getWrongQuestions (recordEvents [answers Q1 ''A'' ''2024-05-01T08:00:00.000Z''] initial_state) = [] \<and>
   clearWrongAnswers (recordEvents [answers Q1 ''A'' ''2024-05-01T08:00:00.000Z''] initial_state) =
     recordEvents [answers Q1 ''A'' ''2024-05-01T08:00:00.000Z''] initial_state \<and>
   clearWrongAnswers (clearWrongAnswers (recordEvents
       [answers Q1 ''B'' ''2024-05-01T08:00:00.000Z'', answers Q2 ''A'' ''2024-05-01T08:01:00.000Z'']
       initial_state)) =
     clearWrongAnswers (recordEvents
       [answers Q1 ''B'' ''2024-05-01T08:00:00.000Z'', answers Q2 ''A'' ''2024-05-01T08:01:00.000Z'']
       initial_state)"
proof -
  have e: "getWrongQuestions (recordEvents [answers Q1 ''A'' ''2024-05-01T08:00:00.000Z''] initial_state) = []"
    by (simp add: getWrongQuestions_def filter_indexed_def sample_defs action_defs)
  from clearWrongAnswers_idempotent
      [of "recordEvents [answers Q1 ''A'' ''2024-05-01T08:00:00.000Z''] initial_state"]
    clearWrongAnswers_idempotent
      [of "recordEvents [answers Q1 ''B'' ''2024-05-01T08:00:00.000Z'',
             answers Q2 ''A'' ''2024-05-01T08:01:00.000Z''] initial_state"] e
  show ?thesis by blast
qed

section \<open>Recommendations of the mock service\<close>

lemma distinct_MOCK_QUESTIONS: "distinct (map id_q MOCK_QUESTIONS)"
  by (simp add: MOCK_QUESTIONS_def)

lemma length_MOCK_QUESTIONS: "length MOCK_QUESTIONS = 5"
  by (simp add: MOCK_QUESTIONS_def)

lemma slice0_take: "\<exists>n. slice0 xs c = take n xs"
  unfolding slice0_def Let_def by blast

lemma slice0_all: "int (length xs) \<le> c \<Longrightarrow> slice0 xs c = xs"
  by (simp add: slice0_def Let_def)

lemma questions_of_recommended:
  "map question_r (getRecommendedQuestions env cnt) =
     slice0 (shuffle env MOCK_QUESTIONS) (case cnt of None \<Rightarrow> 5 | Some c \<Rightarrow> c)"
  by (simp add: getRecommendedQuestions_def Let_def split_def comp_def enumerate_eq_zip
      map_snd_zip_take split: option.splits)

lemma ids_of_recommended:
  "map question_id (getRecommendedQuestions env cnt) =
     map id_q (map question_r (getRecommendedQuestions env cnt))"
  unfolding map_map by (rule map_cong) (auto simp: getRecommendedQuestions_def Let_def)

lemma store_not_read:
  "getRecommendedQuestions (env\<lparr>store := st\<rparr>) cnt = getRecommendedQuestions env cnt"
  by (simp add: getRecommendedQuestions_def)

lemma ids_MOCK_QUESTIONS:
  "map id_q MOCK_QUESTIONS = [''q_001'', ''q_002'', ''q_003'', ''q_004'', ''q_005'']"
  by (simp add: MOCK_QUESTIONS_def)

lemma points_MOCK_QUESTIONS:
  "knowledgePoints (MOCK_QUESTIONS ! 0) =
     [''UML class diagram'', ''relationship types'', ''object-oriented design'']"
  "knowledgePoints (MOCK_QUESTIONS ! 4) = [''polymorphism'', ''inheritance'', ''method overriding'']"
  by (simp_all add: MOCK_QUESTIONS_def)

lemma mastery_of_env: "scores_of (masteryMatrix (userProfile (store (env_of m)))) = m"
proof
  fix point
  show "scores_of (masteryMatrix (userProfile (store (env_of m)))) point = m point"
    by (cases "m point")
      (simp_all add: scores_of_def env_of_def state_with_def initial_profile_def initial_state_def)
qed

lemma spec_weight_samples:
  "spec_weight (mastery_of a b) (MOCK_QUESTIONS ! 0) = max 0.1 (1.5 - a)"
  "spec_weight (mastery_of a b) (MOCK_QUESTIONS ! 4) = max 0.1 (1.5 - b)"
  by (simp_all add: spec_weight_def spec_get_def mastery_of_def points_MOCK_QUESTIONS)

lemma first_of_reversed:
  "map question_id (getRecommendedQuestions (env_of m) (Some 1)) = [''q_005'']"
proof -
  have "map id_q (slice0 (rev MOCK_QUESTIONS) 1) = take 1 (rev (map id_q MOCK_QUESTIONS))"
    by (simp add: slice0_def Let_def rev_map take_map length_MOCK_QUESTIONS)
  also have "\<dots> = [''q_005'']"
    by (simp add: ids_MOCK_QUESTIONS)
  finally show ?thesis
    by (simp add: ids_of_recommended questions_of_recommended env_of_def)
qed

text \<open>
  Claim C7 (as the code has it). \<open>getRecommendedQuestions\<close> computes no weight and does
  not read the user's mastery: its result is the same whatever the store holds. The
  questions it returns are the first \<open>count\<close> elements (5 when \<open>count\<close> is omitted) of the
  randomly sorted copy of the fixed catalog \<open>MOCK_QUESTIONS\<close>; when that copy is a
  rearrangement of the catalog, no question is returned twice and every returned
  question is a catalog question.
\<close>

theorem recommended_by_shuffle_only:
  "getRecommendedQuestions (env\<lparr>store := st\<rparr>) cnt = getRecommendedQuestions env cnt \<and>
   map question_r (getRecommendedQuestions env cnt) =
     slice0 (shuffle env MOCK_QUESTIONS) (case cnt of None \<Rightarrow> 5 | Some c \<Rightarrow> c) \<and>
   (mset (shuffle env MOCK_QUESTIONS) = mset MOCK_QUESTIONS \<longrightarrow>
      distinct (map question_id (getRecommendedQuestions env cnt)) \<and>
      set (map question_r (getRecommendedQuestions env cnt)) \<subseteq> set MOCK_QUESTIONS)"
proof -
  have "distinct (map question_id (getRecommendedQuestions env cnt)) \<and>
        set (map question_r (getRecommendedQuestions env cnt)) \<subseteq> set MOCK_QUESTIONS"
    if p: "mset (shuffle env MOCK_QUESTIONS) = mset MOCK_QUESTIONS"
  proof -
    obtain n where n: "map question_r (getRecommendedQuestions env cnt) =
        take n (shuffle env MOCK_QUESTIONS)"
      using slice0_take [of "shuffle env MOCK_QUESTIONS"] by (auto simp: questions_of_recommended)
    have "mset (map id_q (shuffle env MOCK_QUESTIONS)) = mset (map id_q MOCK_QUESTIONS)"
      using p by (metis mset_map)
    then have "distinct (map id_q (shuffle env MOCK_QUESTIONS))"
      using distinct_MOCK_QUESTIONS by (metis mset_eq_imp_distinct_iff)
    then have "distinct (map id_q (take n (shuffle env MOCK_QUESTIONS)))"
      by (simp add: take_map [symmetric] distinct_take)
    then have d: "distinct (map question_id (getRecommendedQuestions env cnt))"
      by (simp only: ids_of_recommended n)
    have "set (take n (shuffle env MOCK_QUESTIONS)) \<subseteq> set (shuffle env MOCK_QUESTIONS)"
      by (rule set_take_subset)
    also have "set (shuffle env MOCK_QUESTIONS) = set MOCK_QUESTIONS"
      using p by (rule mset_eq_setD)
    finally show ?thesis
      using d by (simp only: n)
  qed
  then show ?thesis
    by (simp add: store_not_read questions_of_recommended)
qed

theorem recommended_by_shuffle_only_witness:
  "getRecommendedQuestions (env_of (mastery_of 1 0.1)) (Some 1) =
     getRecommendedQuestions (env_of (mastery_of 0.1 1)) (Some 1) \<and>
   mset (shuffle (env_of (mastery_of 0.1 1)) MOCK_QUESTIONS) = mset MOCK_QUESTIONS \<and>
   distinct (map question_id (getRecommendedQuestions (env_of (mastery_of 0.1 1)) (Some 1)))"
proof -
  have p: "mset (shuffle (env_of (mastery_of 0.1 1)) MOCK_QUESTIONS) = mset MOCK_QUESTIONS"
    by (simp add: env_of_def)
  have e: "(env_of (mastery_of 0.1 1))\<lparr>store := state_with (map_option Num \<circ> mastery_of 1 0.1)\<rparr> =
      env_of (mastery_of 1 0.1)"
    by (simp add: env_of_def)
  from recommended_by_shuffle_only
      [where env = "env_of (mastery_of 0.1 1)"
         and st = "state_with (map_option Num \<circ> mastery_of 1 0.1)"
         and cnt = "Some 1"] p e
  show ?thesis by simp
qed

text \<open>
  The claim fails on the code. Take two users who meet the same random draws. For the
  first the weight of the claim ranks \<open>q_001\<close> (weak knowledge points, weight 1.4) above
  \<open>q_005\<close> (mastered, weight 0.5); for the second the ranking is the opposite. The service
  selects the same single question for both, \<open>q_005\<close>: the selection is one and the same
  function of the random draws for every user, so no question can be more probable for
  the user who is weaker on it.
\<close>

theorem recommended_ignores_weights:
  "spec_weight (scores_of (masteryMatrix (userProfile (store (env_of (mastery_of 0.1 1)))))) (MOCK_QUESTIONS ! 0) = 1.4 \<and>
   spec_weight (scores_of (masteryMatrix (userProfile (store (env_of (mastery_of 0.1 1)))))) (MOCK_QUESTIONS ! 4) = 0.5 \<and>
   spec_weight (scores_of (masteryMatrix (userProfile (store (env_of (mastery_of 1 0.1)))))) (MOCK_QUESTIONS ! 0) = 0.5 \<and>
   spec_weight (scores_of (masteryMatrix (userProfile (store (env_of (mastery_of 1 0.1)))))) (MOCK_QUESTIONS ! 4) = 1.4 \<and>
   map question_id (getRecommendedQuestions (env_of (mastery_of 0.1 1)) (Some 1)) = [''q_005''] \<and>
   map question_id (getRecommendedQuestions (env_of (mastery_of 1 0.1)) (Some 1)) = [''q_005'']"
  by (simp add: mastery_of_env spec_weight_samples first_of_reversed)

text \<open>
  Claim C8. When the requested count is at least the size of the catalog, and the random
  sort returns a rearrangement of the catalog, \<open>getRecommendedQuestions\<close> returns every
  catalog question exactly once, that is 5 recommendations; so does a request for 10.
  The function has no failing branch.
\<close>

theorem recommended_all_when_short:
  "mset (shuffle env MOCK_QUESTIONS) = mset MOCK_QUESTIONS \<Longrightarrow>
   int (length MOCK_QUESTIONS) \<le> cnt \<Longrightarrow>
     mset (map question_r (getRecommendedQuestions env (Some cnt))) = mset MOCK_QUESTIONS \<and>
     length (getRecommendedQuestions env (Some cnt)) = 5 \<and>
     length (getRecommendedQuestions env (Some 10)) = 5"
proof -
  assume p: "mset (shuffle env MOCK_QUESTIONS) = mset MOCK_QUESTIONS"
    and c: "int (length MOCK_QUESTIONS) \<le> cnt"
  have len: "length (shuffle env MOCK_QUESTIONS) = 5"
    using mset_eq_length [OF p] by (simp add: length_MOCK_QUESTIONS)
  have all: "map question_r (getRecommendedQuestions env (Some k)) = shuffle env MOCK_QUESTIONS"
    if "5 \<le> k" for k
    using that len by (simp add: questions_of_recommended slice0_all)
  have "length (map question_r (getRecommendedQuestions env (Some k))) = 5" if "5 \<le> k" for k
    using all [OF that] len by (simp only:)
  then have l: "length (getRecommendedQuestions env (Some k)) = 5" if "5 \<le> k" for k
    using that by simp
  from c have c5: "5 \<le> cnt"
    by (simp add: length_MOCK_QUESTIONS)
  show ?thesis
    using all [OF c5] l [OF c5] l [of 10] p by simp
qed

theorem recommended_all_when_short_witness:
  "mset (shuffle (env_of Map.empty) MOCK_QUESTIONS) = mset MOCK_QUESTIONS \<and>
   int (length MOCK_QUESTIONS) \<le> 10 \<and>
   length (getRecommendedQuestions (env_of Map.empty) (Some 10)) = 5 \<and>
   mset (map question_r (getRecommendedQuestions (env_of Map.empty) (Some 10))) = mset MOCK_QUESTIONS"
proof -
  have p: "mset (shuffle (env_of Map.empty) MOCK_QUESTIONS) = mset MOCK_QUESTIONS"
    by (simp add: env_of_def)
  have c: "int (length MOCK_QUESTIONS) \<le> 10"
    by (simp add: length_MOCK_QUESTIONS)
  from recommended_all_when_short [OF p c] p c
  show ?thesis by blast
qed

end
